theory Spec2Isabelle
  imports Main "HOL-Library.Sublist" "HOL-Library.AList"
begin

section \<open>The syntax tree\<close>

text \<open>
  The accessors of \<^verbatim>\<open>src/accessors.ts\<close> read nodes of the compiler's syntax tree
  (package \<^verbatim>\<open>solidity-ast\<close>). Only the fields the accessors read are kept. A field
  that the tree's types declare optional is an \<open>option\<close>; JavaScript's
  \<^verbatim>\<open>undefined\<close> is \<open>None\<close>.
\<close>

record TypeDescriptions =
  typeString :: "string option"

text \<open>
  A type name is an \<^verbatim>\<open>ElementaryTypeName\<close>, which has a \<^verbatim>\<open>name\<close>, or a node of
  another kind (array, mapping, user defined, function type), which has none. Every
  kind carries \<^verbatim>\<open>typeDescriptions\<close>.
\<close>

datatype TypeName =
    ElementaryTypeName string TypeDescriptions
  | NonElementaryTypeName string TypeDescriptions

fun tn_typeDescriptions :: "TypeName \<Rightarrow> TypeDescriptions" where
  "tn_typeDescriptions (ElementaryTypeName n td) = td"
| "tn_typeDescriptions (NonElementaryTypeName k td) = td"

record VariableDeclaration =
  vd_name :: string
  vd_visibility :: string
  vd_mutability :: string
  vd_stateVariable :: bool
  vd_typeName :: "TypeName option"
  vd_typeDescriptions :: TypeDescriptions

text \<open>\<^verbatim>\<open>ParameterList.parameters\<close>: the declarations of a parameter list, in order.\<close>

type_synonym ParameterList = "VariableDeclaration list"

text \<open>A modifier invocation, reduced to \<^verbatim>\<open>modifierName.name\<close>.\<close>

record ModifierInvocation =
  modifierName_name :: string

record FunctionDefinition =
  fd_name :: string
  fd_kind :: string
  fd_visibility :: string
  fd_stateMutability :: string
  fd_virtual :: bool
  fd_modifiers :: "ModifierInvocation list"
  fd_parameters :: ParameterList
  fd_returnParameters :: ParameterList

text \<open>
  A declaration node is a tagged union over the documented variants. A contract holds
  its member declarations (\<^verbatim>\<open>nodes\<close>); a function and a modifier hold the
  declarations nested in their body, so that a subtree can be deeper than one level.
\<close>

datatype node =
    Contract string "node list"
  | Function FunctionDefinition "node list"
  | Event string ParameterList
  | Error string ParameterList
  | Modifier string ParameterList "node list"
  | Variable VariableDeclaration
  | Struct string "VariableDeclaration list"
  | Enum string
  | UserDefinedValueType string

text \<open>The discriminant \<^verbatim>\<open>item.nodeType\<close>.\<close>

fun nodeType :: "node \<Rightarrow> string" where
  "nodeType (Contract n ns) = ''ContractDefinition''"
| "nodeType (Function f b) = ''FunctionDefinition''"
| "nodeType (Event n ps) = ''EventDefinition''"
| "nodeType (Error n ps) = ''ErrorDefinition''"
| "nodeType (Modifier n ps b) = ''ModifierDefinition''"
| "nodeType (Variable v) = ''VariableDeclaration''"
| "nodeType (Struct n ms) = ''StructDefinition''"
| "nodeType (Enum n) = ''EnumDefinition''"
| "nodeType (UserDefinedValueType n) = ''UserDefinedValueTypeDefinition''"

text \<open>The field \<^verbatim>\<open>item.name\<close>, which every variant has.\<close>

fun declaredName :: "node \<Rightarrow> string" where
  "declaredName (Contract n ns) = n"
| "declaredName (Function f b) = fd_name f"
| "declaredName (Event n ps) = n"
| "declaredName (Error n ps) = n"
| "declaredName (Modifier n ps b) = n"
| "declaredName (Variable v) = vd_name v"
| "declaredName (Struct n ms) = n"
| "declaredName (Enum n) = n"
| "declaredName (UserDefinedValueType n) = n"

section \<open>JavaScript strings and arrays\<close>

text \<open>\<^verbatim>\<open>s.startsWith(p)\<close> and \<^verbatim>\<open>s.endsWith(p)\<close>, compared unit by unit.\<close>

fun startsWith :: "string \<Rightarrow> string \<Rightarrow> bool" where
  "startsWith s [] = True"
| "startsWith [] (p # ps) = False"
| "startsWith (c # cs) (p # ps) = (c = p \<and> startsWith cs ps)"

definition endsWith :: "string \<Rightarrow> string \<Rightarrow> bool" where
  "endsWith s p = startsWith (rev s) (rev p)"

text \<open>
  \<^verbatim>\<open>x ? x : undefined\<close> on a string: the empty string is falsy.
\<close>

definition truthy :: "string \<Rightarrow> string option" where
  "truthy s = (if s = [] then None else Some s)"

text \<open>
  \<^verbatim>\<open>arr.join(sep)\<close>: an \<^verbatim>\<open>undefined\<close> element is written as the empty string.
\<close>

fun join :: "string \<Rightarrow> string option list \<Rightarrow> string" where
  "join sep [] = []"
| "join sep [x] = (case x of None \<Rightarrow> [] | Some s \<Rightarrow> s)"
| "join sep (x # y # ys) = (case x of None \<Rightarrow> [] | Some s \<Rightarrow> s) @ sep @ join sep (y # ys)"

section \<open>Searching the tree\<close>

text \<open>
  The nodes directly below a node, in source order: a contract's members; a function's
  parameters, return parameters and the declarations of its body; the parameters of an
  event or an error; a modifier's parameters and body; a struct's members.
\<close>

fun kids :: "node \<Rightarrow> node list" where
  "kids (Contract n ns) = ns"
| "kids (Function f b) = map Variable (fd_parameters f) @ map Variable (fd_returnParameters f) @ b"
| "kids (Event n ps) = map Variable ps"
| "kids (Error n ps) = map Variable ps"
| "kids (Modifier n ps b) = map Variable ps @ b"
| "kids (Variable v) = []"
| "kids (Struct n ms) = map Variable ms"
| "kids (Enum n) = []"
| "kids (UserDefinedValueType n) = []"

text \<open>
  Modelled from the spec: \<^verbatim>\<open>isNodeType\<close> comes from the package
  \<^verbatim>\<open>solidity-ast/utils\<close>, which is not among the sources. It tests the discriminant.
\<close>

definition isNodeType :: "string \<Rightarrow> node \<Rightarrow> bool" where
  "isNodeType t n = (nodeType n = t)"

text \<open>A measure for the search: it decreases from a node to every node directly below it.\<close>

fun weight :: "node \<Rightarrow> nat" where
  "weight (Contract n ns) = Suc (sum_list (map weight ns))"
| "weight (Function f b) = Suc (sum_list (map weight b))"
| "weight (Event n ps) = Suc 0"
| "weight (Error n ps) = Suc 0"
| "weight (Modifier n ps b) = Suc (sum_list (map weight b))"
| "weight (Variable v) = 0"
| "weight (Struct n ms) = Suc 0"
| "weight (Enum n) = Suc 0"
| "weight (UserDefinedValueType n) = Suc 0"

text \<open>
  Modelled from the spec: \<^verbatim>\<open>findAll\<close> comes from the package \<^verbatim>\<open>solidity-ast/utils\<close>,
  which is not among the sources. The spec's descendant collector is a recursive search
  over a node's subtree that returns every node of the requested kind in source order.
  The search starts at the node itself, so a node of the requested kind is its own first
  result.
\<close>

function findAll :: "string \<Rightarrow> node \<Rightarrow> node list" where
  "findAll t n = (if isNodeType t n then [n] else []) @ concat (map (findAll t) (kids n))"
  by pat_completeness auto
termination
proof (relation "measure (\<lambda>(t, n). weight n)")
  show "wf (measure (\<lambda>(t, n). weight n))"
    by simp
next
  fix t :: string and n x :: node
  assume "x \<in> set (kids n)"
  then have "weight x < weight n"
    by (cases n) (auto simp: less_Suc_eq_le member_le_sum_list)
  then show "((t, x), (t, n)) \<in> measure (\<lambda>(t, n). weight n)"
    by simp
qed

declare findAll.simps [simp del]

text \<open>The nodes of a subtree, the root included: what a search can reach.\<close>

inductive inSubtree :: "node \<Rightarrow> node \<Rightarrow> bool" where
  root: "inSubtree n n"
| below: "k \<in> set (kids n) \<Longrightarrow> inSubtree m k \<Longrightarrow> inSubtree m n"

code_pred inSubtree .

text \<open>
  \<^verbatim>\<open>item.nodes.filter(isNodeType('VariableDeclaration'))\<close> narrows the members to
  variable declarations; the model returns their records.
\<close>

fun asVariable :: "node \<Rightarrow> VariableDeclaration option" where
  "asVariable (Variable v) = Some v"
| "asVariable n = None"

definition variableDeclarations :: "node list \<Rightarrow> VariableDeclaration list" where
  "variableDeclarations ns = List.map_filter asVariable ns"

text \<open>The field \<^verbatim>\<open>x.visibility\<close> as read from a node; absent where the variant has none.\<close>

fun rawVisibility :: "node \<Rightarrow> string option" where
  "rawVisibility (Function f b) = Some (fd_visibility f)"
| "rawVisibility (Variable v) = Some (vd_visibility v)"
| "rawVisibility n = None"

section \<open>NatSpec\<close>

text \<open>
  Modelled from the spec: the type \<^verbatim>\<open>NatSpec\<close> and the function \<^verbatim>\<open>parseNatspec\<close>
  are declared in \<^verbatim>\<open>utils/natspec\<close>, which is not among the sources. The spec's
  NatSpec record has an optional summary, an optional detail, parameter descriptions
  and return descriptions; \<^verbatim>\<open>getParams\<close> reads \<^verbatim>\<open>natspec.params\<close> as an optional
  array of entries with a \<^verbatim>\<open>name\<close> and a \<^verbatim>\<open>description\<close>. The extractor itself is a
  parameter \<open>parseNatspec\<close> of every accessor that calls it.
\<close>

record NatSpecEntry =
  ne_name :: string
  ne_description :: string

record NatSpec =
  ns_notice :: "string option"
  ns_dev :: "string option"
  ns_params :: "NatSpecEntry list option"
  ns_returns :: "NatSpecEntry list option"

record Param =
  p_name :: string
  p_type :: "string option"
  p_natspec :: "string option"

text \<open>
  \<^verbatim>\<open>natspec.params?.find(q => p.name === q.name)?.description\<close>: the first entry
  with the parameter's name, if the record has parameter entries at all.
\<close>

definition findDescription :: "NatSpec \<Rightarrow> string \<Rightarrow> string option" where
  "findDescription natspec n =
     (case ns_params natspec of
        None \<Rightarrow> None
      | Some qs \<Rightarrow>
          (case find (\<lambda>q. n = ne_name q) qs of
             None \<Rightarrow> None
           | Some q \<Rightarrow> Some (ne_description q)))"

definition getParams :: "ParameterList \<Rightarrow> NatSpec \<Rightarrow> Param list" where
  "getParams params natspec =
     map (\<lambda>p. \<lparr> p_name = vd_name p,
                p_type = typeString (vd_typeDescriptions p),
                p_natspec = findDescription natspec (vd_name p) \<rparr>) params"

section \<open>The accessors\<close>

text \<open>
  \<^verbatim>\<open>type(item)\<close>: the first \<^verbatim>\<open>replace\<close> drops a final \<^verbatim>\<open>Definition\<close> or
  \<^verbatim>\<open>Declaration\<close>; the second, global one puts a space between a word character
  and a capital that follows it, and goes on after the capital.
\<close>

definition stripSuffix :: "string \<Rightarrow> string" where
  "stripSuffix s =
     (if endsWith s ''Definition'' then take (length s - 10) s
      else if endsWith s ''Declaration'' then take (length s - 11) s
      else s)"

definition isUpper :: "char \<Rightarrow> bool" where
  "isUpper c = (c \<in> set ''ABCDEFGHIJKLMNOPQRSTUVWXYZ'')"

definition isWord :: "char \<Rightarrow> bool" where
  "isWord c = (isUpper c \<or> c \<in> set ''abcdefghijklmnopqrstuvwxyz0123456789_'')"

fun spaceCapitals :: "string \<Rightarrow> string" where
  "spaceCapitals (a # b # cs) =
     (if isWord a \<and> isUpper b then a # CHR '' '' # b # spaceCapitals cs
      else a # spaceCapitals (b # cs))"
| "spaceCapitals cs = cs"

definition type :: "node \<Rightarrow> string" where
  "type item = spaceCapitals (stripSuffix (nodeType item))"

definition natspec :: "(node \<Rightarrow> NatSpec) \<Rightarrow> node \<Rightarrow> NatSpec" where
  "natspec parseNatspec item = parseNatspec item"

text \<open>
  \<^verbatim>\<open>name(item)\<close>: a function's kind stands for its name unless the kind is
  \<^verbatim>\<open>function\<close>.
\<close>

fun name :: "node \<Rightarrow> string" where
  "name (Function f b) = (if fd_kind f = ''function'' then fd_name f else fd_kind f)"
| "name item = declaredName item"

fun visibility :: "node \<Rightarrow> string option" where
  "visibility (Function f b) = truthy (fd_visibility f)"
| "visibility (Variable v) = truthy (vd_visibility v)"
| "visibility item = None"

text \<open>
  \<^verbatim>\<open>typeName(item)\<close>: a variable with no type name, or with a type name that is not
  elementary and has no type string, falls out of the nested conditions, and the call
  returns \<^verbatim>\<open>undefined\<close>.
\<close>

fun typeName :: "node \<Rightarrow> string option" where
  "typeName (Variable v) =
     (case vd_typeName v of
        None \<Rightarrow> None
      | Some (ElementaryTypeName n td) \<Rightarrow> Some n
      | Some (NonElementaryTypeName k td) \<Rightarrow>
          (case typeString td of None \<Rightarrow> None | Some s \<Rightarrow> truthy s))"
| "typeName item = None"

fun stateMutability :: "node \<Rightarrow> string option" where
  "stateMutability (Function f b) =
     (if fd_stateMutability f = ''nonpayable'' then None else truthy (fd_stateMutability f))"
| "stateMutability (Variable v) =
     (if vd_mutability v = ''mutable'' then None else truthy (vd_mutability v))"
| "stateMutability item = None"

fun virtual :: "node \<Rightarrow> string option" where
  "virtual (Function f b) = (if fd_virtual f then Some ''virtual'' else None)"
| "virtual item = None"

text \<open>
  \<^verbatim>\<open>withModifiers(item)\<close>: \<^verbatim>\<open>item.modifiers\<close> is an array, and an array is truthy
  even when empty, so a function always gets the joined names.
\<close>

fun withModifiers :: "node \<Rightarrow> string option" where
  "withModifiers (Function f b) =
     Some (join '', '' (map (\<lambda>x. Some (modifierName_name x)) (fd_modifiers f)))"
| "withModifiers item = None"

text \<open>
  \<^verbatim>\<open>a.typeName?.typeDescriptions.typeString\<close>: the type string of a parameter's type
  name, \<^verbatim>\<open>undefined\<close> when the parameter has no type name or the type name no string.
\<close>

definition paramTypeString :: "VariableDeclaration \<Rightarrow> string option" where
  "paramTypeString a =
     (case vd_typeName a of None \<Rightarrow> None | Some tn \<Rightarrow> typeString (tn_typeDescriptions tn))"

fun signature :: "node \<Rightarrow> string option" where
  "signature (Contract n ns) = None"
| "signature (Function f b) =
     Some (name (Function f b) @ ''('' @ join '','' (map paramTypeString (fd_parameters f)) @ '')'')"
| "signature (Event n ps) =
     Some (name (Event n ps) @ ''('' @ join '','' (map paramTypeString ps) @ '')'')"
| "signature item = None"

fun params :: "(node \<Rightarrow> NatSpec) \<Rightarrow> node \<Rightarrow> Param list option" where
  "params parseNatspec (Function f b) =
     Some (getParams (fd_parameters f) (natspec parseNatspec (Function f b)))"
| "params parseNatspec (Event n ps) =
     Some (getParams ps (natspec parseNatspec (Event n ps)))"
| "params parseNatspec item = None"

fun returns :: "(node \<Rightarrow> NatSpec) \<Rightarrow> node \<Rightarrow> Param list option" where
  "returns parseNatspec (Function f b) =
     Some (getParams (fd_returnParameters f) (natspec parseNatspec (Function f b)))"
| "returns parseNatspec item = None"

definition "functions" :: "node \<Rightarrow> node list" where
  "functions item = findAll ''FunctionDefinition'' item"

definition events :: "node \<Rightarrow> node list" where
  "events item = findAll ''EventDefinition'' item"

definition modifiers :: "node \<Rightarrow> node list" where
  "modifiers item = findAll ''ModifierDefinition'' item"

definition errors :: "node \<Rightarrow> node list" where
  "errors item = findAll ''ErrorDefinition'' item"

fun variables :: "node \<Rightarrow> VariableDeclaration list option" where
  "variables (Contract n ns) = Some (filter vd_stateVariable (variableDeclarations ns))"
| "variables item = None"

fun notTest :: "node \<Rightarrow> bool" where
  "notTest (Contract n ns) =
     (\<not> (endsWith n ''Test'' \<or> startsWith n ''Test'' \<or> endsWith n ''Mock'' \<or> startsWith n ''Mock''))"
| "notTest item = True"

text \<open>\<^verbatim>\<open>x.visibility == 'public' || x.visibility == 'external'\<close>.\<close>

definition publicOrExternal :: "node \<Rightarrow> bool" where
  "publicOrExternal x = (rawVisibility x = Some ''public'' \<or> rawVisibility x = Some ''external'')"

fun hasPublicMembers :: "node \<Rightarrow> bool" where
  "hasPublicMembers (Contract n ns) =
     (let variables =
            filter (\<lambda>v. vd_visibility v = ''public'')
              (filter vd_stateVariable (variableDeclarations ns))
      in if length variables > 0 then True
         else let events = findAll ''EventDefinition'' (Contract n ns)
              in if length events > 0 then True
                 else let functions =
                            filter publicOrExternal (findAll ''FunctionDefinition'' (Contract n ns))
                      in if length functions > 0 then True else False)"
| "hasPublicMembers item = False"

definition publicExternalFunctions :: "node \<Rightarrow> node list" where
  "publicExternalFunctions item = filter publicOrExternal (findAll ''FunctionDefinition'' item)"

fun publicVariables :: "node \<Rightarrow> VariableDeclaration list option" where
  "publicVariables (Contract n ns) =
     Some (filter (\<lambda>v. vd_visibility v = ''public'')
             (filter vd_stateVariable (variableDeclarations ns)))"
| "publicVariables item = None"

text \<open>
  The \<open>variables\<close> accessor as the spec words it, for comparison with the accessor of
  the source: every variable declaration found anywhere in the node's subtree, filtered
  to state variables.
\<close>

definition variables_spec :: "node \<Rightarrow> VariableDeclaration list" where
  "variables_spec n =
     filter vd_stateVariable (variableDeclarations (findAll ''VariableDeclaration'' n))"

section \<open>The decorator\<close>

text \<open>
  What a template can read from a decorated item: the values of the item's own fields
  and the values the accessors return. \<open>Undefined\<close> is a value of its own, so that a
  key whose value is \<^verbatim>\<open>undefined\<close> can be told from a key that is missing.
\<close>

datatype val =
    Undefined
  | BoolV bool
  | StrV string
  | NatSpecV NatSpec
  | ParamsV "Param list"
  | NodesV "node list"
  | VarsV "VariableDeclaration list"
  | ModifierInvocationsV "ModifierInvocation list"
  | TypeNameV TypeName
  | TypeDescriptionsV TypeDescriptions

definition optional :: "('a \<Rightarrow> val) \<Rightarrow> 'a option \<Rightarrow> val" where
  "optional wrap x = (case x of None \<Rightarrow> Undefined | Some y \<Rightarrow> wrap y)"

text \<open>An object: its keys with their values, in insertion order, each key once.\<close>

type_synonym 'v obj = "(string \<times> 'v) list"

text \<open>The registry \<^verbatim>\<open>accessors\<close>: every key of the object literal with its function.\<close>

definition accessors :: "(node \<Rightarrow> NatSpec) \<Rightarrow> (node \<Rightarrow> val) obj" where
  "accessors parseNatspec =
     [ (''type'', \<lambda>item. StrV (type item)),
       (''natspec'', \<lambda>item. NatSpecV (natspec parseNatspec item)),
       (''name'', \<lambda>item. StrV (name item)),
       (''visibility'', \<lambda>item. optional StrV (visibility item)),
       (''typeName'', \<lambda>item. optional StrV (typeName item)),
       (''stateMutability'', \<lambda>item. optional StrV (stateMutability item)),
       (''virtual'', \<lambda>item. optional StrV (virtual item)),
       (''withModifiers'', \<lambda>item. optional StrV (withModifiers item)),
       (''signature'', \<lambda>item. optional StrV (signature item)),
       (''params'', \<lambda>item. optional ParamsV (params parseNatspec item)),
       (''returns'', \<lambda>item. optional ParamsV (returns parseNatspec item)),
       (''functions'', \<lambda>item. NodesV (functions item)),
       (''events'', \<lambda>item. NodesV (events item)),
       (''modifiers'', \<lambda>item. NodesV (modifiers item)),
       (''errors'', \<lambda>item. NodesV (errors item)),
       (''variables'', \<lambda>item. optional VarsV (variables item)),
       (''notTest'', \<lambda>item. BoolV (notTest item)),
       (''hasPublicMembers'', \<lambda>item. BoolV (hasPublicMembers item)),
       (''publicExternalFunctions'', \<lambda>item. NodesV (publicExternalFunctions item)),
       (''publicVariables'', \<lambda>item. optional VarsV (publicVariables item)) ]"

text \<open>The own fields of an item, as the object that \<^verbatim>\<open>...item\<close> copies.\<close>

fun ownProperties :: "node \<Rightarrow> val obj" where
  "ownProperties (Contract n ns) =
     [(''nodeType'', StrV ''ContractDefinition''), (''name'', StrV n), (''nodes'', NodesV ns)]"
| "ownProperties (Function f b) =
     [(''nodeType'', StrV ''FunctionDefinition''), (''name'', StrV (fd_name f)),
      (''kind'', StrV (fd_kind f)), (''visibility'', StrV (fd_visibility f)),
      (''stateMutability'', StrV (fd_stateMutability f)), (''virtual'', BoolV (fd_virtual f)),
      (''modifiers'', ModifierInvocationsV (fd_modifiers f)),
      (''parameters'', VarsV (fd_parameters f)),
      (''returnParameters'', VarsV (fd_returnParameters f)), (''body'', NodesV b)]"
| "ownProperties (Event n ps) =
     [(''nodeType'', StrV ''EventDefinition''), (''name'', StrV n), (''parameters'', VarsV ps)]"
| "ownProperties (Error n ps) =
     [(''nodeType'', StrV ''ErrorDefinition''), (''name'', StrV n), (''parameters'', VarsV ps)]"
| "ownProperties (Modifier n ps b) =
     [(''nodeType'', StrV ''ModifierDefinition''), (''name'', StrV n), (''parameters'', VarsV ps),
      (''body'', NodesV b)]"
| "ownProperties (Variable v) =
     [(''nodeType'', StrV ''VariableDeclaration''), (''name'', StrV (vd_name v)),
      (''visibility'', StrV (vd_visibility v)), (''mutability'', StrV (vd_mutability v)),
      (''stateVariable'', BoolV (vd_stateVariable v)),
      (''typeDescriptions'', TypeDescriptionsV (vd_typeDescriptions v))]
     @ (case vd_typeName v of None \<Rightarrow> [] | Some tn \<Rightarrow> [(''typeName'', TypeNameV tn)])"
| "ownProperties (Struct n ms) =
     [(''nodeType'', StrV ''StructDefinition''), (''name'', StrV n), (''members'', VarsV ms)]"
| "ownProperties (Enum n) = [(''nodeType'', StrV ''EnumDefinition''), (''name'', StrV n)]"
| "ownProperties (UserDefinedValueType n) =
     [(''nodeType'', StrV ''UserDefinedValueTypeDefinition''), (''name'', StrV n)]"

text \<open>
  The object literal \<^verbatim>\<open>{ ...a, ...b }\<close>: the properties of \<open>a\<close>, then those of \<open>b\<close>,
  are set one by one on a new object; setting a key that is there already replaces its
  value.
\<close>

definition setProperties :: "'v obj \<Rightarrow> 'v obj \<Rightarrow> 'v obj" where
  "setProperties target source = fold (\<lambda>(k, v) obj. AList.update k v obj) source target"

definition spread :: "'v obj \<Rightarrow> 'v obj \<Rightarrow> 'v obj" where
  "spread a b = setProperties (setProperties [] a) b"

text \<open>
  Modelled from the spec: \<^verbatim>\<open>mapValues\<close> is declared in \<^verbatim>\<open>utils/map-values\<close>, which
  is not among the sources. The spec's decorator calls every accessor of the registry on
  the node and keeps every registry key: the object with the same keys, the function
  applied to each value.
\<close>

definition mapValues :: "'a obj \<Rightarrow> ('a \<Rightarrow> 'b) \<Rightarrow> 'b obj" where
  "mapValues obj fn = map (\<lambda>(k, v). (k, fn v)) obj"

definition wrapWithAccessors :: "(node \<Rightarrow> NatSpec) \<Rightarrow> node \<Rightarrow> val obj" where
  "wrapWithAccessors parseNatspec item =
     spread (ownProperties item) (mapValues (accessors parseNatspec) (\<lambda>fn. fn item))"

section \<open>The heading helper\<close>

text \<open>
  \<^verbatim>\<open>h\<close> is called with the template context as \<^verbatim>\<open>this\<close>, whose \<^verbatim>\<open>hlevel\<close> is
  optional, and with a number or an object. Numbers are taken to be integers.
  \<^verbatim>\<open>new Array(len)\<close> throws a \<^verbatim>\<open>RangeError\<close> unless \<open>0 \<le> len < 2\<^sup>3\<^sup>2\<close>.
\<close>

datatype jsError = RangeError

datatype hsublevelArg = Number int | Object

definition newArray :: "int \<Rightarrow> jsError + unit list" where
  "newArray len = (if len < 0 \<or> 4294967295 < len then Inl RangeError else Inr (replicate (nat len) ()))"

definition fill :: "'a list \<Rightarrow> 'b \<Rightarrow> 'b list" where
  "fill arr x = map (\<lambda>_. x) arr"

definition h :: "int option \<Rightarrow> hsublevelArg \<Rightarrow> jsError + string" where
  "h hlevel hsublevel =
     (let hsublevel = (case hsublevel of Number x \<Rightarrow> max 1 x | Object \<Rightarrow> 1)
      in case newArray ((case hlevel of None \<Rightarrow> 1 | Some l \<Rightarrow> l) + hsublevel - 1) of
           Inl e \<Rightarrow> Inl e
         | Inr arr \<Rightarrow> Inr (join [] (map Some (fill arr ''#''))))"

section \<open>Example items\<close>

definition emptyNatSpec :: NatSpec where
  "emptyNatSpec = \<lparr> ns_notice = None, ns_dev = None, ns_params = None, ns_returns = None \<rparr>"

definition elementary :: "string \<Rightarrow> TypeName" where
  "elementary t = ElementaryTypeName t \<lparr> typeString = Some t \<rparr>"

definition parameter :: "string \<Rightarrow> string \<Rightarrow> VariableDeclaration" where
  "parameter n t =
     \<lparr> vd_name = n, vd_visibility = ''internal'', vd_mutability = ''mutable'',
       vd_stateVariable = False, vd_typeName = Some (elementary t),
       vd_typeDescriptions = \<lparr> typeString = Some t \<rparr> \<rparr>"

text \<open>\<^verbatim>\<open>function transfer(address to, uint256 amount) external virtual\<close>.\<close>

definition transferFunction :: FunctionDefinition where
  "transferFunction =
     \<lparr> fd_name = ''transfer'', fd_kind = ''function'', fd_visibility = ''external'',
       fd_stateMutability = ''nonpayable'', fd_virtual = True, fd_modifiers = [],
       fd_parameters = [parameter ''to'' ''address'', parameter ''amount'' ''uint256''],
       fd_returnParameters = [] \<rparr>"

text \<open>A free function \<^verbatim>\<open>function helper() pure\<close>, declared outside every contract.\<close>

definition helperFunction :: FunctionDefinition where
  "helperFunction =
     \<lparr> fd_name = ''helper'', fd_kind = ''freeFunction'', fd_visibility = ''internal'',
       fd_stateMutability = ''pure'', fd_virtual = False, fd_modifiers = [],
       fd_parameters = [], fd_returnParameters = [] \<rparr>"

text \<open>\<^verbatim>\<open>function _mint() internal\<close>.\<close>

definition mintFunction :: FunctionDefinition where
  "mintFunction =
     \<lparr> fd_name = ''_mint'', fd_kind = ''function'', fd_visibility = ''internal'',
       fd_stateMutability = ''nonpayable'', fd_virtual = False, fd_modifiers = [],
       fd_parameters = [], fd_returnParameters = [] \<rparr>"

text \<open>The state variable \<^verbatim>\<open>uint256 public totalSupply\<close>.\<close>

definition totalSupply :: VariableDeclaration where
  "totalSupply =
     \<lparr> vd_name = ''totalSupply'', vd_visibility = ''public'', vd_mutability = ''mutable'',
       vd_stateVariable = True, vd_typeName = Some (elementary ''uint256''),
       vd_typeDescriptions = \<lparr> typeString = Some ''uint256'' \<rparr> \<rparr>"

text \<open>A NatSpec record that describes the parameter \<^verbatim>\<open>amount\<close> only.\<close>

definition transferNatSpec :: NatSpec where
  "transferNatSpec = emptyNatSpec \<lparr> ns_params :=
       Some [\<lparr> ne_name = ''amount'', ne_description = ''how much'' \<rparr>] \<rparr>"

section \<open>Properties\<close>

subsection \<open>Strings\<close>

lemma startsWith_prefix: "startsWith s p = prefix p s"
  by (induction s p rule: startsWith.induct) auto

lemma endsWith_suffix: "endsWith s p = suffix p s"
  by (simp add: endsWith_def startsWith_prefix suffix_to_prefix)

lemma startsWith_iff: "startsWith s p = (\<exists>r. s = p @ r)"
  by (simp add: startsWith_prefix prefix_def)

lemma endsWith_iff: "endsWith s p = (\<exists>r. s = r @ p)"
  by (simp add: endsWith_suffix suffix_def)

subsection \<open>Labels and defaults\<close>

lemma type_labels:
  "type (Function f b) = ''Function''"
  "type (Variable v) = ''Variable''"
  "type (Contract n ns) = ''Contract''"
  "type (UserDefinedValueType n) = ''User Defined Value Type''"
  by (simp_all add: type_def stripSuffix_def endsWith_def isWord_def isUpper_def)

lemma stateMutability_default:
  "stateMutability (Function (f\<lparr> fd_stateMutability := ''nonpayable'' \<rparr>) b) = None"
  "stateMutability (Function (f\<lparr> fd_stateMutability := ''view'' \<rparr>) b) = Some ''view''"
  by (simp_all add: truthy_def)

subsection \<open>The search reaches exactly the subtree\<close>

lemma findAll_subset: "m \<in> set (findAll t n) \<Longrightarrow> inSubtree m n \<and> nodeType m = t"
proof (induction t n rule: findAll.induct)
  case (1 t n)
  from "1.prems" have "(isNodeType t n \<and> m = n) \<or> (\<exists>k \<in> set (kids n). m \<in> set (findAll t k))"
    by (subst (asm) findAll.simps) (auto split: if_splits)
  then show ?case
  proof
    assume "isNodeType t n \<and> m = n"
    then show ?thesis by (auto simp: isNodeType_def intro: inSubtree.root)
  next
    assume "\<exists>k \<in> set (kids n). m \<in> set (findAll t k)"
    then obtain k where k: "k \<in> set (kids n)" "m \<in> set (findAll t k)" by blast
    with "1.IH" have "inSubtree m k \<and> nodeType m = t" by blast
    with k show ?thesis by (auto intro: inSubtree.below)
  qed
qed

lemma findAll_complete: "inSubtree m n \<Longrightarrow> m \<in> set (findAll (nodeType m) n)"
proof (induction rule: inSubtree.induct)
  case (root n)
  show ?case by (subst findAll.simps) (simp add: isNodeType_def)
next
  case (below k n m)
  then show ?case by (subst findAll.simps) auto
qed

lemma set_findAll: "set (findAll t n) = {m. inSubtree m n \<and> nodeType m = t}"
  using findAll_subset findAll_complete by blast

lemma inSubtree_findAll: "inSubtree m n \<longleftrightarrow> m \<in> set (findAll (nodeType m) n)"
  by (simp add: set_findAll)

lemma set_variableDeclarations: "set (variableDeclarations ns) = {v. Variable v \<in> set ns}"
proof (induction ns)
  case Nil
  show ?case by (simp add: variableDeclarations_def)
next
  case (Cons n ns)
  then show ?case
    by (cases n) (auto simp: variableDeclarations_def)
qed

lemma map_Variable_variableDeclarations:
  "map Variable (variableDeclarations ns) = filter (isNodeType ''VariableDeclaration'') ns"
proof (induction ns)
  case Nil
  show ?case by (simp add: variableDeclarations_def)
next
  case (Cons n ns)
  then show ?case
    by (cases n) (simp_all add: variableDeclarations_def isNodeType_def)
qed

subsection \<open>The name accessor\<close>

text \<open>
  C7. The claim: for a function, \<open>name\<close> returns the kind identifier when the function has
  no ordinary name, and the declared name otherwise. The code decides by the kind alone:
  every kind but \<^verbatim>\<open>function\<close> replaces the name. A free function has the kind
  \<^verbatim>\<open>freeFunction\<close> and an ordinary name; for the free function \<^verbatim>\<open>helper\<close> the accessor
  returns \<^verbatim>\<open>freeFunction\<close>, not \<^verbatim>\<open>helper\<close>.
\<close>

theorem name_free_function:
  "declaredName (Function helperFunction []) = ''helper''
   \<and> name (Function helperFunction []) = ''freeFunction''"
  by (simp add: helperFunction_def)

text \<open>What the accessor computes: the declared name for the kind \<^verbatim>\<open>function\<close> and for
  every variant that is not a function, the kind for every other kind of function.\<close>

lemma name_by_kind:
  "name (Function f b) = (if fd_kind f = ''function'' then fd_name f else fd_kind f)"
  "nodeType item \<noteq> ''FunctionDefinition'' \<Longrightarrow> name item = declaredName item"
  by (cases item; simp)+

subsection \<open>The test convention\<close>

text \<open>
  C6. \<open>notTest\<close> is false for a contract exactly when the contract's name starts or ends
  with \<^verbatim>\<open>Test\<close> or starts or ends with \<^verbatim>\<open>Mock\<close>; it is true for every node that is not
  a contract; it is false for contracts named \<^verbatim>\<open>MockToken\<close> and \<^verbatim>\<open>TokenTest\<close>.
\<close>

theorem notTest_convention:
  "(notTest (Contract n ns) = False \<longleftrightarrow>
      ((\<exists>r. n = ''Test'' @ r) \<or> (\<exists>r. n = r @ ''Test'')
       \<or> (\<exists>r. n = ''Mock'' @ r) \<or> (\<exists>r. n = r @ ''Mock'')))
   \<and> (nodeType item \<noteq> ''ContractDefinition'' \<longrightarrow> notTest item = True)
   \<and> notTest (Contract ''MockToken'' ms) = False
   \<and> notTest (Contract ''TokenTest'' ms) = False"
proof -
  have a: "notTest (Contract n ns) = False \<longleftrightarrow>
      ((\<exists>r. n = ''Test'' @ r) \<or> (\<exists>r. n = r @ ''Test'')
       \<or> (\<exists>r. n = ''Mock'' @ r) \<or> (\<exists>r. n = r @ ''Mock''))"
    by (auto simp: startsWith_iff endsWith_iff)
  have b: "nodeType item \<noteq> ''ContractDefinition'' \<longrightarrow> notTest item = True"
    by (cases item) simp_all
  have c: "notTest (Contract ''MockToken'' ms) = False"
    by (simp add: endsWith_def)
  have d: "notTest (Contract ''TokenTest'' ms) = False"
    by (simp add: endsWith_def)
  from a b c d show ?thesis by blast
qed

theorem notTest_convention_witness:
  "nodeType (Event ''Transfer'' []) \<noteq> ''ContractDefinition''
   \<and> notTest (Event ''Transfer'' []) = True
   \<and> notTest (Contract ''TestHelper'' []) = False"
  using notTest_convention [of "''TestHelper''" "[]" "Event ''Transfer'' []" "[]"]
  by simp

text \<open>A name that only contains \<^verbatim>\<open>Test\<close> is not a test's name.\<close>

lemma notTest_TokenTestable: "notTest (Contract ''TokenTestable'' ns) = True"
  by (simp add: endsWith_def)

subsection \<open>Public members\<close>

text \<open>
  C10. \<open>hasPublicMembers\<close> is false for every node that is not a contract.
\<close>

theorem hasPublicMembers_not_contract:
  "nodeType item \<noteq> ''ContractDefinition'' \<Longrightarrow> hasPublicMembers item = False"
  by (cases item) simp_all

theorem hasPublicMembers_not_contract_witness:
  "nodeType (Function transferFunction []) \<noteq> ''ContractDefinition''
   \<and> hasPublicMembers (Function transferFunction []) = False"
  using hasPublicMembers_not_contract [of "Function transferFunction []"]
  by simp

text \<open>
  C3. For a contract, \<open>hasPublicMembers\<close> is true exactly when a member of the contract
  is a public state variable, or an event lies anywhere in the contract's subtree, or a
  function with visibility \<^verbatim>\<open>public\<close> or \<^verbatim>\<open>external\<close> lies anywhere in the subtree.
  The code tests the three in this order and returns at the first that holds; a pure
  function's result does not show the order.
\<close>

theorem hasPublicMembers_iff:
  "hasPublicMembers (Contract n ns) \<longleftrightarrow>
     (\<exists>v. Variable v \<in> set ns \<and> vd_stateVariable v \<and> vd_visibility v = ''public'')
     \<or> (\<exists>e. inSubtree e (Contract n ns) \<and> nodeType e = ''EventDefinition'')
     \<or> (\<exists>f b. inSubtree (Function f b) (Contract n ns)
              \<and> (fd_visibility f = ''public'' \<or> fd_visibility f = ''external''))"
proof -
  let ?c = "Contract n ns"
  have v: "(filter (\<lambda>v. vd_visibility v = ''public'') (filter vd_stateVariable (variableDeclarations ns)) \<noteq> [])
      \<longleftrightarrow> (\<exists>v. Variable v \<in> set ns \<and> vd_stateVariable v \<and> vd_visibility v = ''public'')"
    by (auto simp: filter_empty_conv set_variableDeclarations)
  have e: "(findAll ''EventDefinition'' ?c \<noteq> [])
      \<longleftrightarrow> (\<exists>e. inSubtree e ?c \<and> nodeType e = ''EventDefinition'')"
  proof -
    have "(findAll ''EventDefinition'' ?c \<noteq> []) \<longleftrightarrow> set (findAll ''EventDefinition'' ?c) \<noteq> {}"
      by simp
    also have "\<dots> \<longleftrightarrow> (\<exists>e. inSubtree e ?c \<and> nodeType e = ''EventDefinition'')"
      unfolding set_findAll by blast
    finally show ?thesis .
  qed
  have f: "(filter publicOrExternal (findAll ''FunctionDefinition'' ?c) \<noteq> [])
      \<longleftrightarrow> (\<exists>f b. inSubtree (Function f b) ?c \<and> (fd_visibility f = ''public'' \<or> fd_visibility f = ''external''))"
  proof
    assume "filter publicOrExternal (findAll ''FunctionDefinition'' ?c) \<noteq> []"
    then obtain x where x: "x \<in> set (findAll ''FunctionDefinition'' ?c)" "publicOrExternal x"
      by (auto simp: filter_empty_conv)
    then have sub: "inSubtree x ?c" and ty: "nodeType x = ''FunctionDefinition''"
      by (simp_all add: set_findAll)
    from ty obtain g b where "x = Function g b" by (cases x) auto
    with x sub show "\<exists>f b. inSubtree (Function f b) ?c \<and> (fd_visibility f = ''public'' \<or> fd_visibility f = ''external'')"
      by (auto simp: publicOrExternal_def)
  next
    assume "\<exists>f b. inSubtree (Function f b) ?c \<and> (fd_visibility f = ''public'' \<or> fd_visibility f = ''external'')"
    then obtain g b where g: "inSubtree (Function g b) ?c" "fd_visibility g = ''public'' \<or> fd_visibility g = ''external''"
      by blast
    then have "Function g b \<in> set (findAll ''FunctionDefinition'' ?c)"
      by (simp add: set_findAll)
    moreover from g have "publicOrExternal (Function g b)"
      by (auto simp: publicOrExternal_def)
    ultimately show "filter publicOrExternal (findAll ''FunctionDefinition'' ?c) \<noteq> []"
      by (auto simp: filter_empty_conv)
  qed
  have "hasPublicMembers ?c \<longleftrightarrow>
      (filter (\<lambda>v. vd_visibility v = ''public'') (filter vd_stateVariable (variableDeclarations ns)) \<noteq> [])
      \<or> (findAll ''EventDefinition'' ?c \<noteq> [])
      \<or> (filter publicOrExternal (findAll ''FunctionDefinition'' ?c) \<noteq> [])"
    by (simp add: Let_def)
  then show ?thesis
    unfolding v e f .
qed

theorem hasPublicMembers_iff_witness:
  "hasPublicMembers (Contract ''Token'' [Function mintFunction [], Event ''Transfer'' []]) = True
   \<and> hasPublicMembers (Contract ''Token'' [Function mintFunction []]) = False"
proof -
  let ?ns = "[Function mintFunction [], Event ''Transfer'' []]"
  have "Event ''Transfer'' [] \<in> set (kids (Contract ''Token'' ?ns))"
    by simp
  then have "inSubtree (Event ''Transfer'' []) (Contract ''Token'' ?ns)"
    by (rule inSubtree.below) (rule inSubtree.root)
  then have "\<exists>e. inSubtree e (Contract ''Token'' ?ns) \<and> nodeType e = ''EventDefinition''"
    by (intro exI [of _ "Event ''Transfer'' []"]) simp
  then have t: "hasPublicMembers (Contract ''Token'' ?ns)"
    using hasPublicMembers_iff [of "''Token''" ?ns] by blast
  have f: "hasPublicMembers (Contract ''Token'' [Function mintFunction []]) = False"
    by (simp add: findAll.simps isNodeType_def variableDeclarations_def mintFunction_def
        publicOrExternal_def)
  from t f show ?thesis by simp
qed

subsection \<open>Variables\<close>

lemma variableDeclarations_append:
  "variableDeclarations (xs @ ys) = variableDeclarations xs @ variableDeclarations ys"
  by (induction xs) (simp_all add: variableDeclarations_def split: option.splits)

lemma variableDeclarations_concat:
  "variableDeclarations (concat xss) = concat (map variableDeclarations xss)"
proof (induction xss)
  case Nil
  show ?case by (simp add: variableDeclarations_def)
next
  case (Cons xs xss)
  then show ?case by (simp add: variableDeclarations_append)
qed

lemma variableDeclarations_singletons:
  "filter P (variableDeclarations ns) = concat (map (\<lambda>m. filter P (variableDeclarations [m])) ns)"
proof (induction ns)
  case Nil
  show ?case by (simp add: variableDeclarations_def)
next
  case (Cons m ms)
  have "variableDeclarations (m # ms) = variableDeclarations [m] @ variableDeclarations ms"
    using variableDeclarations_append [of "[m]" ms] by simp
  with Cons show ?case by simp
qed

text \<open>
  C2, as stated: for every node, \<open>variables\<close> returns the list of all variable
  declarations found anywhere in the node's subtree, filtered to state variables. The
  accessor answers for contracts only: for the state variable \<^verbatim>\<open>totalSupply\<close>,
  documented as an item of its own, the search of the subtree finds the declaration
  itself, and the accessor returns \<^verbatim>\<open>undefined\<close>.
\<close>

theorem variables_counterexample:
  "variables_spec (Variable totalSupply) = [totalSupply]
   \<and> variables (Variable totalSupply) = None
   \<and> variables (Variable totalSupply) \<noteq> Some (variables_spec (Variable totalSupply))"
  by (simp add: variables_spec_def findAll.simps isNodeType_def variableDeclarations_def
      totalSupply_def)

text \<open>
  C2, amended. For a contract, \<open>variables\<close> returns the contract's own members that
  are variable declarations flagged as state variables, in the order of the members. Each
  of them is among the state variables of the subtree, and the two lists are equal when no
  declaration nested below a member is flagged as a state variable. For a node that is not
  a contract the accessor returns \<^verbatim>\<open>undefined\<close>.
\<close>

theorem variables_members:
  "(\<exists>vs. variables (Contract n ns) = Some vs
         \<and> map Variable vs = filter (\<lambda>m. \<exists>v. m = Variable v \<and> vd_stateVariable v) ns
         \<and> set vs \<subseteq> set (variables_spec (Contract n ns)))
   \<and> ((\<forall>m \<in> set ns. \<forall>v. inSubtree (Variable v) m \<and> m \<noteq> Variable v \<longrightarrow> \<not> vd_stateVariable v)
        \<longrightarrow> variables (Contract n ns) = Some (variables_spec (Contract n ns)))
   \<and> (nodeType item \<noteq> ''ContractDefinition'' \<longrightarrow> variables item = None)"
proof (intro conjI impI)
  assume wf: "\<forall>m \<in> set ns. \<forall>v. inSubtree (Variable v) m \<and> m \<noteq> Variable v \<longrightarrow> \<not> vd_stateVariable v"
  have "filter vd_stateVariable (variableDeclarations (findAll ''VariableDeclaration'' m))
      = filter vd_stateVariable (variableDeclarations [m])" if "m \<in> set ns" for m
  proof (cases "\<exists>v. m = Variable v")
    case True
    then show ?thesis
      by (auto simp: findAll.simps isNodeType_def)
  next
    case False
    then have "variableDeclarations [m] = []"
      by (cases m) (simp_all add: variableDeclarations_def)
    moreover have "\<not> vd_stateVariable v"
      if "v \<in> set (variableDeclarations (findAll ''VariableDeclaration'' m))" for v
    proof -
      from that have "inSubtree (Variable v) m"
        by (simp add: set_variableDeclarations set_findAll)
      with wf \<open>m \<in> set ns\<close> False show ?thesis by blast
    qed
    ultimately show ?thesis
      by (simp add: filter_empty_conv)
  qed
  then have same: "concat (map (\<lambda>m. filter vd_stateVariable (variableDeclarations (findAll ''VariableDeclaration'' m))) ns)
      = concat (map (\<lambda>m. filter vd_stateVariable (variableDeclarations [m])) ns)"
    by (simp cong: map_cong)
  have "findAll ''VariableDeclaration'' (Contract n ns)
      = concat (map (findAll ''VariableDeclaration'') ns)"
    by (simp add: findAll.simps [of _ "Contract n ns"] isNodeType_def)
  then have "variables_spec (Contract n ns)
      = concat (map (\<lambda>m. filter vd_stateVariable (variableDeclarations (findAll ''VariableDeclaration'' m))) ns)"
    by (simp add: variables_spec_def variableDeclarations_concat filter_concat comp_def)
  also note same
  also have "concat (map (\<lambda>m. filter vd_stateVariable (variableDeclarations [m])) ns)
      = filter vd_stateVariable (variableDeclarations ns)"
    by (rule variableDeclarations_singletons [symmetric])
  finally have "variables_spec (Contract n ns) = filter vd_stateVariable (variableDeclarations ns)" .
  then show "variables (Contract n ns) = Some (variables_spec (Contract n ns))"
    by simp
next
  let ?vs = "filter vd_stateVariable (variableDeclarations ns)"
  have a: "variables (Contract n ns) = Some ?vs"
    by simp
  have "map Variable ?vs = filter (\<lambda>m. \<exists>v. m = Variable v \<and> vd_stateVariable v) ns"
  proof (induction ns)
    case Nil
    show ?case by (simp add: variableDeclarations_def)
  next
    case (Cons m ms)
    then show ?case
      by (cases m) (auto simp: variableDeclarations_def)
  qed
  moreover have "set ?vs \<subseteq> set (variables_spec (Contract n ns))"
  proof
    fix v assume "v \<in> set ?vs"
    then have v: "Variable v \<in> set ns" "vd_stateVariable v"
      by (simp_all add: set_variableDeclarations)
    then have "Variable v \<in> set (kids (Contract n ns))"
      by simp
    then have "inSubtree (Variable v) (Contract n ns)"
      by (rule inSubtree.below) (rule inSubtree.root)
    then have "Variable v \<in> set (findAll ''VariableDeclaration'' (Contract n ns))"
      by (simp add: set_findAll)
    with v show "v \<in> set (variables_spec (Contract n ns))"
      by (simp add: variables_spec_def set_variableDeclarations)
  qed
  ultimately show "\<exists>vs. variables (Contract n ns) = Some vs
         \<and> map Variable vs = filter (\<lambda>m. \<exists>v. m = Variable v \<and> vd_stateVariable v) ns
         \<and> set vs \<subseteq> set (variables_spec (Contract n ns))"
    using a by blast
next
  assume "nodeType item \<noteq> ''ContractDefinition''"
  then show "variables item = None"
    by (cases item) simp_all
qed

theorem variables_members_witness:
  "nodeType (Function transferFunction []) \<noteq> ''ContractDefinition''
   \<and> variables (Function transferFunction []) = None
   \<and> variables (Contract ''Token'' [Variable totalSupply, Function transferFunction []])
       = Some [totalSupply]
   \<and> variables_spec (Contract ''Token'' [Variable totalSupply, Function transferFunction []])
       = [totalSupply]"
proof -
  let ?ns = "[Variable totalSupply, Function transferFunction []]"
  note inst = variables_members [of "''Token''" ?ns "Function transferFunction []"]
  have a: "variables (Function transferFunction []) = None"
    using inst [THEN conjunct2, THEN conjunct2] by simp
  have b: "variables (Contract ''Token'' ?ns) = Some [totalSupply]"
    by (simp add: variableDeclarations_def totalSupply_def)
  have wf: "\<forall>m \<in> set ?ns. \<forall>v. inSubtree (Variable v) m \<and> m \<noteq> Variable v \<longrightarrow> \<not> vd_stateVariable v"
  proof (intro ballI allI impI)
    fix m v
    assume m: "m \<in> set ?ns" and below: "inSubtree (Variable v) m \<and> m \<noteq> Variable v"
    from m consider "m = Variable totalSupply" | "m = Function transferFunction []"
      by auto
    then show "\<not> vd_stateVariable v"
    proof cases
      case 1
      with below have "Variable v \<in> set (findAll ''VariableDeclaration'' (Variable totalSupply))"
        by (simp add: inSubtree_findAll)
      then have "v = totalSupply"
        by (simp add: findAll.simps isNodeType_def)
      with 1 below show ?thesis by simp
    next
      case 2
      with below have "Variable v \<in> set (findAll ''VariableDeclaration'' (Function transferFunction []))"
        by (simp add: inSubtree_findAll)
      then have "v = parameter ''to'' ''address'' \<or> v = parameter ''amount'' ''uint256''"
        by (simp add: findAll.simps isNodeType_def transferFunction_def)
      then show ?thesis
        by (auto simp: parameter_def)
    qed
  qed
  from inst [THEN conjunct2, THEN conjunct1, THEN mp, OF wf] b
  have c: "variables_spec (Contract ''Token'' ?ns) = [totalSupply]"
    by simp
  from a b c show ?thesis by simp
qed

subsection \<open>Signatures\<close>

lemma join_Some_closed:
  "ts \<noteq> [] \<Longrightarrow> join sep (map Some ts) = concat (map (\<lambda>t. t @ sep) (butlast ts)) @ last ts"
proof (induction ts rule: induct_list012)
  case 1
  then show ?case by simp
next
  case (2 t)
  show ?case by simp
next
  case (3 t u ts)
  then show ?case by simp
qed

text \<open>
  What the accessor computes. For a function or an event whose parameters all have a
  type name with a type string, \<open>signature\<close> is a name, an opening parenthesis, the type
  strings in declaration order, each but the last followed by a comma, and a closing
  parenthesis. The name is the declared name for an event and for a function of the kind
  \<^verbatim>\<open>function\<close>, and the kind for a function of any other kind. For a contract and for
  every other variant \<open>signature\<close> is absent.
\<close>

lemma signature_by_kind:
  "map paramTypeString (fd_parameters f) = map Some ts \<Longrightarrow>
     signature (Function f b) =
       Some ((if fd_kind f = ''function'' then fd_name f else fd_kind f) @ ''(''
             @ (if ts = [] then [] else concat (map (\<lambda>t. t @ '','') (butlast ts)) @ last ts)
             @ '')'')"
  "map paramTypeString ps = map Some ts \<Longrightarrow>
     signature (Event n ps) =
       Some (n @ ''(''
             @ (if ts = [] then [] else concat (map (\<lambda>t. t @ '','') (butlast ts)) @ last ts)
             @ '')'')"
  "signature (Contract n ns) = None"
  "nodeType item \<noteq> ''FunctionDefinition'' \<Longrightarrow> nodeType item \<noteq> ''EventDefinition'' \<Longrightarrow>
     signature item = None"
proof -
  show "signature (Function f b) =
       Some ((if fd_kind f = ''function'' then fd_name f else fd_kind f) @ ''(''
             @ (if ts = [] then [] else concat (map (\<lambda>t. t @ '','') (butlast ts)) @ last ts)
             @ '')'')"
    if "map paramTypeString (fd_parameters f) = map Some ts"
    using that by (simp add: join_Some_closed)
  show "signature (Event n ps) =
       Some (n @ ''(''
             @ (if ts = [] then [] else concat (map (\<lambda>t. t @ '','') (butlast ts)) @ last ts)
             @ '')'')"
    if "map paramTypeString ps = map Some ts"
    using that by (simp add: join_Some_closed)
  show "signature (Contract n ns) = None"
    by simp
  show "signature item = None"
    if "nodeType item \<noteq> ''FunctionDefinition''" "nodeType item \<noteq> ''EventDefinition''"
    using that by (cases item) simp_all
qed

lemma signature_examples:
  "signature (Function transferFunction b) = Some ''transfer(address,uint256)''"
  "signature (Event ''Transfer'' (fd_parameters transferFunction)) = Some ''Transfer(address,uint256)''"
  "signature (Error ''Unauthorized'' []) = None"
  by (simp_all add: transferFunction_def parameter_def elementary_def paramTypeString_def)

text \<open>
  C4. The claim: for every function, \<open>signature\<close> is the function's name followed by the
  parenthesised parameter types, as \<^verbatim>\<open>transfer(address,uint256)\<close> for the function named
  \<^verbatim>\<open>transfer\<close>. The accessor takes the name from the \<open>name\<close> accessor, which puts the kind
  in place of the name for every kind but \<^verbatim>\<open>function\<close>. The free function \<^verbatim>\<open>helper\<close>,
  which has no parameters, gets the signature \<^verbatim>\<open>freeFunction()\<close>, not \<^verbatim>\<open>helper()\<close>.
\<close>

theorem signature_free_function:
  "declaredName (Function helperFunction []) = ''helper''
   \<and> fd_parameters helperFunction = []
   \<and> signature (Function helperFunction []) = Some ''freeFunction()''
   \<and> signature (Function helperFunction []) \<noteq> Some ''helper()''"
  by (simp add: helperFunction_def)

subsection \<open>Parameters and their descriptions\<close>

lemma findDescription_first:
  assumes "ns_params doc = Some (pre @ q # post)"
    and "ne_name q = n"
    and "\<forall>q' \<in> set pre. ne_name q' \<noteq> n"
  shows "findDescription doc n = Some (ne_description q)"
proof -
  have "find (\<lambda>q. n = ne_name q) (pre @ q # post) = Some q"
    using assms(2,3) by (induction pre) auto
  with assms(1) show ?thesis
    by (simp add: findDescription_def)
qed

lemma findDescription_none:
  "findDescription doc n = None \<longleftrightarrow>
     (ns_params doc = None \<or> (\<exists>qs. ns_params doc = Some qs \<and> (\<forall>q \<in> set qs. ne_name q \<noteq> n)))"
  by (auto simp: findDescription_def find_None_iff find_Some_iff split: option.splits)

text \<open>
  C5. \<open>getParams\<close> returns one entry per parameter, in the order of the parameters, with
  the parameter's name and type string. The entry's \<open>natspec\<close> is the description of the
  first NatSpec entry whose name equals the parameter's name, and it is absent exactly
  when the record has no parameter entries or none of them has that name.
\<close>

theorem getParams_merge:
  "length (getParams ps doc) = length ps
   \<and> map p_name (getParams ps doc) = map vd_name ps
   \<and> (\<forall>i < length ps.
        p_type (getParams ps doc ! i) = typeString (vd_typeDescriptions (ps ! i))
        \<and> (\<forall>pre q post.
              ns_params doc = Some (pre @ q # post) \<and> ne_name q = vd_name (ps ! i)
                \<and> (\<forall>q' \<in> set pre. ne_name q' \<noteq> vd_name (ps ! i))
              \<longrightarrow> p_natspec (getParams ps doc ! i) = Some (ne_description q))
        \<and> (p_natspec (getParams ps doc ! i) = None \<longleftrightarrow>
              (ns_params doc = None
               \<or> (\<exists>qs. ns_params doc = Some qs \<and> (\<forall>q \<in> set qs. ne_name q \<noteq> vd_name (ps ! i))))))"
proof (intro conjI allI impI)
  show "length (getParams ps doc) = length ps"
    by (simp add: getParams_def)
  show "map p_name (getParams ps doc) = map vd_name ps"
    by (simp add: getParams_def)
next
  fix i assume "i < length ps"
  then show "p_type (getParams ps doc ! i) = typeString (vd_typeDescriptions (ps ! i))"
    by (simp add: getParams_def)
next
  fix i pre q post
  assume i: "i < length ps"
    and m: "ns_params doc = Some (pre @ q # post) \<and> ne_name q = vd_name (ps ! i)
                \<and> (\<forall>q' \<in> set pre. ne_name q' \<noteq> vd_name (ps ! i))"
  from i have "p_natspec (getParams ps doc ! i) = findDescription doc (vd_name (ps ! i))"
    by (simp add: getParams_def)
  with m show "p_natspec (getParams ps doc ! i) = Some (ne_description q)"
    by (simp add: findDescription_first)
next
  fix i assume i: "i < length ps"
  then have "p_natspec (getParams ps doc ! i) = findDescription doc (vd_name (ps ! i))"
    by (simp add: getParams_def)
  then show "p_natspec (getParams ps doc ! i) = None \<longleftrightarrow>
              (ns_params doc = None
               \<or> (\<exists>qs. ns_params doc = Some qs \<and> (\<forall>q \<in> set qs. ne_name q \<noteq> vd_name (ps ! i))))"
    by (simp add: findDescription_none)
qed

theorem getParams_merge_witness:
  "map p_name (getParams (fd_parameters transferFunction) transferNatSpec) = [''to'', ''amount'']
   \<and> p_natspec (getParams (fd_parameters transferFunction) transferNatSpec ! 0) = None
   \<and> p_natspec (getParams (fd_parameters transferFunction) transferNatSpec ! 1) = Some ''how much''"
proof -
  let ?ps = "fd_parameters transferFunction"
  let ?q = "\<lparr> ne_name = ''amount'', ne_description = ''how much'' \<rparr>"
  note inst = getParams_merge [of ?ps transferNatSpec]
  have len: "length ?ps = 2" 
    by (simp add: transferFunction_def)
  have names: "map vd_name ?ps = [''to'', ''amount'']"
    by (simp add: transferFunction_def parameter_def)
  have ps: "ns_params transferNatSpec = Some ([] @ ?q # [])"
    by (simp add: transferNatSpec_def emptyNatSpec_def)
  have n0: "vd_name (?ps ! 0) = ''to''" and n1: "vd_name (?ps ! 1) = ''amount''"
    by (simp_all add: transferFunction_def parameter_def)
  have i0: "(0::nat) < length ?ps" and i1: "(1::nat) < length ?ps"
    using len by simp_all
  note at0 = inst [THEN conjunct2, THEN conjunct2, THEN spec [where x = 0], THEN mp, OF i0]
  note at1 = inst [THEN conjunct2, THEN conjunct2, THEN spec [where x = 1], THEN mp, OF i1]
  from inst names have a: "map p_name (getParams ?ps transferNatSpec) = [''to'', ''amount'']"
    by simp
  have b: "p_natspec (getParams ?ps transferNatSpec ! 0) = None"
    using at0 [THEN conjunct2, THEN conjunct2] ps n0 by simp
  have c: "p_natspec (getParams ?ps transferNatSpec ! 1) = Some ''how much''"
    using at1 [THEN conjunct2, THEN conjunct1, THEN spec [where x = "[]"], THEN spec [where x = ?q],
        THEN spec [where x = "[]"]] ps n1
    by simp
  from a b c show ?thesis by simp
qed

subsection \<open>Inapplicable accessors\<close>

text \<open>
  C8. No accessor has a failing branch: on an item of the tree's types every field the
  accessors read is there, and each accessor is a total function of the item (the
  \<open>natspec\<close> accessor returns what the extractor returns). Ten accessors answer on every
  variant with a value. Each of the other ten has branches for some variants only, and
  returns \<^verbatim>\<open>undefined\<close> on every other variant, so that the registry holds the key
  with the value \<open>Undefined\<close>: \<open>visibility\<close> on a contract, \<open>typeName\<close> on a node that is
  not a variable, \<open>stateMutability\<close> on an event.
\<close>

theorem inapplicable_accessors_absent:
  "(nodeType item \<noteq> ''FunctionDefinition'' \<and> nodeType item \<noteq> ''VariableDeclaration''
      \<longrightarrow> visibility item = None \<and> stateMutability item = None)
   \<and> (nodeType item \<noteq> ''VariableDeclaration'' \<longrightarrow> typeName item = None)
   \<and> (nodeType item \<noteq> ''FunctionDefinition''
      \<longrightarrow> virtual item = None \<and> withModifiers item = None \<and> returns parseNatspec item = None)
   \<and> (nodeType item \<noteq> ''FunctionDefinition'' \<and> nodeType item \<noteq> ''EventDefinition''
      \<longrightarrow> signature item = None \<and> params parseNatspec item = None)
   \<and> (nodeType item \<noteq> ''ContractDefinition''
      \<longrightarrow> variables item = None \<and> publicVariables item = None)
   \<and> visibility (Contract n ns) = None
   \<and> stateMutability (Event n ps) = None
   \<and> map_of (mapValues (accessors parseNatspec) (\<lambda>fn. fn (Contract n ns))) ''visibility''
       = Some Undefined
   \<and> map_of (mapValues (accessors parseNatspec) (\<lambda>fn. fn (Event n ps))) ''stateMutability''
       = Some Undefined
   \<and> (nodeType item \<noteq> ''VariableDeclaration''
      \<longrightarrow> map_of (mapValues (accessors parseNatspec) (\<lambda>fn. fn item)) ''typeName'' = Some Undefined)
   \<and> (\<forall>k \<in> set [''type'', ''natspec'', ''name'', ''functions'', ''events'', ''modifiers'',
                   ''errors'', ''notTest'', ''hasPublicMembers'', ''publicExternalFunctions''].
        \<exists>v. map_of (mapValues (accessors parseNatspec) (\<lambda>fn. fn item)) k = Some v
            \<and> v \<noteq> Undefined)"
proof -
  have a: "nodeType item \<noteq> ''FunctionDefinition'' \<and> nodeType item \<noteq> ''VariableDeclaration''
      \<longrightarrow> visibility item = None \<and> stateMutability item = None"
    by (cases item) simp_all
  have b: "nodeType item \<noteq> ''VariableDeclaration'' \<longrightarrow> typeName item = None"
    by (cases item) simp_all
  have c: "nodeType item \<noteq> ''FunctionDefinition''
      \<longrightarrow> virtual item = None \<and> withModifiers item = None \<and> returns parseNatspec item = None"
    by (cases item) simp_all
  have d: "nodeType item \<noteq> ''FunctionDefinition'' \<and> nodeType item \<noteq> ''EventDefinition''
      \<longrightarrow> signature item = None \<and> params parseNatspec item = None"
    by (cases item) simp_all
  have e: "nodeType item \<noteq> ''ContractDefinition''
      \<longrightarrow> variables item = None \<and> publicVariables item = None"
    by (cases item) simp_all
  have f: "visibility (Contract n ns) = None" "stateMutability (Event n ps) = None"
    by simp_all
  have g: "map_of (mapValues (accessors parseNatspec) (\<lambda>fn. fn (Contract n ns))) ''visibility''
       = Some Undefined"
    by (simp add: mapValues_def accessors_def optional_def)
  have h: "map_of (mapValues (accessors parseNatspec) (\<lambda>fn. fn (Event n ps))) ''stateMutability''
       = Some Undefined"
    by (simp add: mapValues_def accessors_def optional_def)
  have i: "nodeType item \<noteq> ''VariableDeclaration''
      \<longrightarrow> map_of (mapValues (accessors parseNatspec) (\<lambda>fn. fn item)) ''typeName'' = Some Undefined"
    using b by (simp add: mapValues_def accessors_def optional_def)
  have j: "\<forall>k \<in> set [''type'', ''natspec'', ''name'', ''functions'', ''events'', ''modifiers'',
                   ''errors'', ''notTest'', ''hasPublicMembers'', ''publicExternalFunctions''].
        \<exists>v. map_of (mapValues (accessors parseNatspec) (\<lambda>fn. fn item)) k = Some v
            \<and> v \<noteq> Undefined"
    by (simp add: mapValues_def accessors_def)
  show ?thesis
    by (intro conjI) (fact a, fact b, fact c, fact d, fact e, fact f(1), fact f(2), fact g,
        fact h, fact i, fact j)
qed

theorem inapplicable_accessors_absent_witness:
  "nodeType (Enum ''Status'') \<noteq> ''FunctionDefinition''
   \<and> nodeType (Enum ''Status'') \<noteq> ''VariableDeclaration''
   \<and> nodeType (Enum ''Status'') \<noteq> ''EventDefinition''
   \<and> nodeType (Enum ''Status'') \<noteq> ''ContractDefinition''
   \<and> visibility (Enum ''Status'') = None \<and> stateMutability (Enum ''Status'') = None
   \<and> typeName (Enum ''Status'') = None \<and> virtual (Enum ''Status'') = None
   \<and> withModifiers (Enum ''Status'') = None \<and> returns (\<lambda>_. emptyNatSpec) (Enum ''Status'') = None
   \<and> signature (Enum ''Status'') = None \<and> params (\<lambda>_. emptyNatSpec) (Enum ''Status'') = None
   \<and> variables (Enum ''Status'') = None \<and> publicVariables (Enum ''Status'') = None"
  using inapplicable_accessors_absent [of "Enum ''Status''" "\<lambda>_. emptyNatSpec" "''Token''" "[]" "[]"]
  by simp

subsection \<open>The decorated record\<close>

lemma map_of_setProperties:
  "distinct (map fst source) \<Longrightarrow>
     map_of (setProperties target source) = map_of target ++ map_of source"
proof (induction source arbitrary: target)
  case Nil
  show ?case by (simp add: setProperties_def)
next
  case (Cons p source)
  obtain k v where p: "p = (k, v)" by (cases p)
  from Cons.prems have fresh: "map_of source k = None" and rest: "distinct (map fst source)"
    by (simp_all add: p map_of_eq_None_iff)
  have "setProperties target (p # source) = setProperties (AList.update k v target) source"
    by (simp add: setProperties_def p)
  then have "map_of (setProperties target (p # source))
      = map_of (AList.update k v target) ++ map_of source"
    by (simp add: Cons.IH rest)
  also have "\<dots> = map_of target ++ map_of (p # source)"
    using fresh by (intro ext) (simp add: p update_conv' map_add_def split: option.splits)
  finally show ?case .
qed

lemma map_of_spread:
  "distinct (map fst a) \<Longrightarrow> distinct (map fst b) \<Longrightarrow> map_of (spread a b) = map_of a ++ map_of b"
  by (simp add: spread_def map_of_setProperties)

lemma distinct_setProperties:
  "distinct (map fst target) \<Longrightarrow> distinct (map fst (setProperties target source))"
proof (induction source arbitrary: target)
  case Nil
  then show ?case by (simp add: setProperties_def)
next
  case (Cons p source)
  obtain k v where p: "p = (k, v)" by (cases p)
  have "setProperties target (p # source) = setProperties (AList.update k v target) source"
    by (simp add: setProperties_def p)
  with Cons show ?case
    by (simp add: distinct_update)
qed

lemma distinct_spread: "distinct (map fst (spread a b))"
  by (simp add: spread_def distinct_setProperties)

lemma keys_mapValues: "map fst (mapValues obj fn) = map fst obj"
  by (simp add: mapValues_def comp_def case_prod_beta)

lemma distinct_accessors: "distinct (map fst (accessors parseNatspec))"
  by (simp add: accessors_def)

lemma distinct_ownProperties: "distinct (map fst (ownProperties item))"
  by (cases item) (simp_all split: option.splits)

lemma map_of_mapValues: "map_of (mapValues obj fn) k = map_option fn (map_of obj k)"
  by (induction obj) (auto simp: mapValues_def)

text \<open>
  C1. The record \<open>wrapWithAccessors\<close> returns is the item's own fields overlaid with the
  results of the accessors: under a key of the registry it holds the result of that
  accessor on the item, also where the item has a field of that name and also where the
  result is \<open>Undefined\<close>; under any other key it holds what the item holds. Every key of
  the registry and every field of the item is a key of the record, and no key occurs twice.
\<close>

theorem wrapWithAccessors_merge:
  "map_of (wrapWithAccessors parseNatspec item)
     = map_of (ownProperties item) ++ map_of (mapValues (accessors parseNatspec) (\<lambda>fn. fn item))
   \<and> (\<forall>k fn. (k, fn) \<in> set (accessors parseNatspec)
        \<longrightarrow> map_of (wrapWithAccessors parseNatspec item) k = Some (fn item))
   \<and> (\<forall>k. k \<notin> fst ` set (accessors parseNatspec)
        \<longrightarrow> map_of (wrapWithAccessors parseNatspec item) k = map_of (ownProperties item) k)
   \<and> fst ` set (accessors parseNatspec) \<subseteq> fst ` set (wrapWithAccessors parseNatspec item)
   \<and> fst ` set (ownProperties item) \<subseteq> fst ` set (wrapWithAccessors parseNatspec item)
   \<and> distinct (map fst (wrapWithAccessors parseNatspec item))"
proof -
  let ?acc = "accessors parseNatspec"
  let ?res = "mapValues ?acc (\<lambda>fn. fn item)"
  let ?w = "wrapWithAccessors parseNatspec item"
  have keys: "map fst ?res = map fst ?acc"
    by (rule keys_mapValues)
  have m: "map_of ?w = map_of (ownProperties item) ++ map_of ?res"
    unfolding wrapWithAccessors_def
    by (rule map_of_spread) (simp_all only: keys distinct_accessors distinct_ownProperties)
  have a: "map_of ?w k = Some (fn item)" if "(k, fn) \<in> set ?acc" for k fn
  proof -
    from that have "map_of ?acc k = Some fn"
      using distinct_accessors [of parseNatspec] by (rule_tac map_of_is_SomeI)
    then have "map_of ?res k = Some (fn item)"
      by (simp only: map_of_mapValues option.map)
    with m show ?thesis
      by (simp only: map_add_Some_iff) simp
  qed
  have o: "map_of ?w k = map_of (ownProperties item) k" if "k \<notin> fst ` set ?acc" for k
  proof -
    from that have "map_of ?acc k = None"
      by (simp add: map_of_eq_None_iff)
    then have "map_of ?res k = None"
      by (simp only: map_of_mapValues option.map)
    with m show ?thesis
      by (simp only: map_add_def option.case)
  qed
  have "dom (map_of ?w) = dom (map_of (ownProperties item)) \<union> dom (map_of ?res)"
    by (simp only: m dom_map_add Un_commute)
  then have d: "fst ` set ?w = fst ` set (ownProperties item) \<union> fst ` set ?res"
    by (simp only: dom_map_of_conv_image_fst)
  have "fst ` set ?res = fst ` set ?acc"
    using keys by (metis set_map)
  with d have k1: "fst ` set ?acc \<subseteq> fst ` set ?w"
    and k2: "fst ` set (ownProperties item) \<subseteq> fst ` set ?w"
    by simp_all
  have u: "distinct (map fst ?w)"
    unfolding wrapWithAccessors_def by (rule distinct_spread)
  show ?thesis
    by (intro conjI allI impI) (fact m, erule a, erule o, fact k1, fact k2, fact u)
qed

theorem wrapWithAccessors_merge_witness:
  "map_of (wrapWithAccessors (\<lambda>_. emptyNatSpec) (Function transferFunction [])) ''virtual''
     = Some (StrV ''virtual'')
   \<and> map_of (wrapWithAccessors (\<lambda>_. emptyNatSpec) (Function transferFunction [])) ''typeName''
     = Some Undefined
   \<and> map_of (wrapWithAccessors (\<lambda>_. emptyNatSpec) (Function transferFunction [])) ''kind''
     = Some (StrV ''function'')"
proof -
  let ?pn = "\<lambda>_::node. emptyNatSpec"
  let ?item = "Function transferFunction []"
  note inst = wrapWithAccessors_merge [of ?pn ?item]
  have v: "(''virtual'', \<lambda>item. optional StrV (virtual item)) \<in> set (accessors ?pn)"
    and t: "(''typeName'', \<lambda>item. optional StrV (typeName item)) \<in> set (accessors ?pn)"
    and k: "''kind'' \<notin> fst ` set (accessors ?pn)"
    by (simp_all add: accessors_def)
  from inst [THEN conjunct2, THEN conjunct1, rule_format, OF v]
  have a: "map_of (wrapWithAccessors ?pn ?item) ''virtual'' = Some (StrV ''virtual'')"
    by (simp add: optional_def transferFunction_def)
  from inst [THEN conjunct2, THEN conjunct1, rule_format, OF t]
  have b: "map_of (wrapWithAccessors ?pn ?item) ''typeName'' = Some Undefined"
    by (simp add: optional_def)
  from inst [THEN conjunct2, THEN conjunct2, THEN conjunct1, rule_format, OF k]
  have c: "map_of (wrapWithAccessors ?pn ?item) ''kind'' = Some (StrV ''function'')"
    by (simp add: transferFunction_def)
  from a b c show ?thesis by simp
qed

subsection \<open>Heading markers\<close>

lemma join_empty_separator: "join [] xs = concat (map (case_option [] id) xs)"
  by (induction xs rule: induct_list012) (auto split: option.splits)

lemma join_markers: "join [] (map Some (fill arr ''#'')) = replicate (length arr) CHR ''#''"
  by (induction arr) (simp_all add: join_empty_separator fill_def)

lemma h_value:
  assumes "0 \<le> len" and "len \<le> 4294967295"
    and "len = (case hlevel of None \<Rightarrow> 1 | Some l \<Rightarrow> l) + (case arg of Number x \<Rightarrow> max 1 x | Object \<Rightarrow> 1) - 1"
  shows "h hlevel arg = Inr (replicate (nat len) CHR ''#'')"
proof -
  from assms(1,2) have "newArray len = Inr (replicate (nat len) ())"
    by (simp add: newArray_def)
  with assms(3) show ?thesis
    by (simp add: h_def Let_def join_markers)
qed

text \<open>
  C9, as stated: the number of markers is the base level plus the requested sub-level.
  With base level 1 and sub-level 1 the helper returns one marker, not two.
\<close>

theorem h_count_counterexample:
  "h (Some 1) (Number 1) = Inr ''#''
   \<and> h (Some 1) (Number 1) \<noteq> Inr (replicate (nat (1 + 1)) CHR ''#'')"
proof -
  have "h (Some 1) (Number 1) = Inr (replicate (nat 1) CHR ''#'')"
    by (rule h_value) simp_all
  then show ?thesis by (simp add: eval_nat_numeral)
qed

text \<open>
  C9, amended. The number of markers is the base level plus the requested sub-level
  minus one, where a sub-level below 1 counts as 1, a sub-level that is not a number
  counts as 1 and an absent base level counts as 1. With a base level of at least 1 the
  string has at least one marker. A negative count makes \<^verbatim>\<open>new Array\<close> throw.
\<close>

theorem h_count:
  "(0 \<le> b + max 1 s - 1 \<and> b + max 1 s - 1 \<le> 4294967295 \<longrightarrow>
      h (Some b) (Number s) = Inr (replicate (nat (b + max 1 s - 1)) CHR ''#''))
   \<and> (max 1 s \<le> 4294967295 \<longrightarrow> h None (Number s) = Inr (replicate (nat (max 1 s)) CHR ''#''))
   \<and> h hlevel Object = h hlevel (Number 1)
   \<and> (1 \<le> b \<and> h (Some b) (Number s) = Inr str \<longrightarrow> 1 \<le> length str)
   \<and> (b + max 1 s - 1 < 0 \<longrightarrow> h (Some b) (Number s) = Inl RangeError)"
proof (intro conjI impI)
  assume "0 \<le> b + max 1 s - 1 \<and> b + max 1 s - 1 \<le> 4294967295"
  then show "h (Some b) (Number s) = Inr (replicate (nat (b + max 1 s - 1)) CHR ''#'')"
    by (intro h_value) simp_all
next
  assume "max 1 s \<le> 4294967295"
  then show "h None (Number s) = Inr (replicate (nat (max 1 s)) CHR ''#'')"
    by (intro h_value) simp_all
next
  show "h hlevel Object = h hlevel (Number 1)"
    by (simp add: h_def)
next
  assume a: "1 \<le> b \<and> h (Some b) (Number s) = Inr str"
  let ?len = "b + max 1 s - 1"
  from a have pos: "1 \<le> ?len" by linarith
  from a have "newArray ?len \<noteq> Inl RangeError"
    by (auto simp: h_def Let_def)
  then have "?len \<le> 4294967295"
    by (auto simp: newArray_def split: if_splits)
  with pos have "h (Some b) (Number s) = Inr (replicate (nat ?len) CHR ''#'')"
    by (intro h_value) simp_all
  with a have "str = replicate (nat ?len) CHR ''#''" by simp
  with pos show "1 \<le> length str" by simp
next
  assume "b + max 1 s - 1 < 0"
  then show "h (Some b) (Number s) = Inl RangeError"
    by (simp add: h_def Let_def newArray_def)
qed

theorem h_count_witness:
  "h (Some 2) (Number 3) = Inr ''####''
   \<and> (1::nat) \<le> length ''####''
   \<and> h None (Number 0) = Inr ''#''
   \<and> h (Some (- 1)) (Number 1) = Inl RangeError"
proof -
  have a: "h (Some 2) (Number 3) = Inr ''####''"
    using h_count [of 2 3, THEN conjunct1] by (simp add: eval_nat_numeral)
  have l: "(1::nat) \<le> length ''####''"
    using a h_count [of 2 3 _ "''####''", THEN conjunct2, THEN conjunct2, THEN conjunct2,
        THEN conjunct1]
    by simp
  have b: "h None (Number 0) = Inr ''#''"
    using h_count [of 0 0, THEN conjunct2, THEN conjunct1] by simp
  have c: "h (Some (- 1)) (Number 1) = Inl RangeError"
    using h_count [of "- 1" 1, THEN conjunct2, THEN conjunct2, THEN conjunct2, THEN conjunct2]
    by simp
  from a l b c show ?thesis by simp
qed

end
